theory Spec2Isabelle
  imports Complex_Main
begin

section \<open>Text primitives of the JavaScript runtime\<close>

text \<open>
  Query text, land-use text and height strings are sequences of code units.  A \<^typ>\<open>char\<close>
  is read as a code unit of the Latin-1 range (0..255), on which the runtime's
  \<^verbatim>\<open>toLowerCase\<close>, \<^verbatim>\<open>trim\<close> and the regular expression classes
  \<^verbatim>\<open>\d\<close> and \<^verbatim>\<open>\s\<close> act as defined below.
\<close>

definition isSpace :: "char \<Rightarrow> bool" where
  \<comment> \<open>white space and line terminators: TAB, LF, VT, FF, CR, SP, NBSP\<close>
  "isSpace c = (let n = (of_char c :: nat) in (9 \<le> n \<and> n \<le> 13) \<or> n = 32 \<or> n = 160)"

definition isDigit :: "char \<Rightarrow> bool" where
  "isDigit c = (let n = (of_char c :: nat) in 48 \<le> n \<and> n \<le> 57)"

definition lowerChar :: "char \<Rightarrow> char" where
  \<comment> \<open>A-Z, and the capital letters of Latin-1 (0xC0..0xDE without the multiplication sign)\<close>
  "lowerChar c = (let n = (of_char c :: nat) in
     if (65 \<le> n \<and> n \<le> 90) \<or> (192 \<le> n \<and> n \<le> 222 \<and> n \<noteq> 215)
     then char_of (n + 32) else c)"

definition toLowerCase :: "string \<Rightarrow> string" where
  "toLowerCase s = map lowerChar s"

definition trim :: "string \<Rightarrow> string" where
  "trim s = rev (dropWhile isSpace (rev (dropWhile isSpace s)))"

fun startsWith :: "string \<Rightarrow> string \<Rightarrow> bool" where
  "startsWith s [] = True"
| "startsWith [] (k # ks) = False"
| "startsWith (c # cs) (k # ks) = (c = k \<and> startsWith cs ks)"

fun str_includes :: "string \<Rightarrow> string \<Rightarrow> bool" where
  \<comment> \<open>\<^verbatim>\<open>s.includes(k)\<close>: \<open>k\<close> occurs in \<open>s\<close> at some position\<close>
  "str_includes [] k = (k = [])"
| "str_includes (c # cs) k = (startsWith (c # cs) k \<or> str_includes cs k)"

section \<open>Numbers\<close>

text \<open>
  JavaScript numbers are modelled as exact rationals: the values the code computes with
  are integers read from the query, JSON numbers of the building records, and products
  with the constant 0.3048.  The rounding of IEEE doubles is outside the model.
\<close>

definition feetToMeters :: "rat \<Rightarrow> rat" where
  "feetToMeters feet = feet * (3048 / 10000)"

definition metersToFeet :: "rat \<Rightarrow> rat" where
  "metersToFeet meters = meters / (3048 / 10000)"

definition Math_round :: "rat \<Rightarrow> rat" where
  \<comment> \<open>the nearest integer, a tie going up\<close>
  "Math_round x = of_int \<lfloor>x + 1 / 2\<rfloor>"

definition digitVal :: "char \<Rightarrow> nat" where
  "digitVal c = of_char c - 48"

definition digitsToNat :: "string \<Rightarrow> nat" where
  "digitsToNat ds = foldl (\<lambda>a c. 10 * a + digitVal c) 0 ds"

definition parseInt :: "string \<Rightarrow> rat" where
  \<comment> \<open>called on capture group 1 only: a non-empty string of decimal digits\<close>
  "parseInt ds = of_nat (digitsToNat ds)"

definition stripNonNumeric :: "string \<Rightarrow> string" where
  \<comment> \<open>\<^verbatim>\<open>s.replace(/[^\d.]/g, '')\<close>\<close>
  "stripNonNumeric s = filter (\<lambda>c. isDigit c \<or> c = CHR ''.'') s"

definition parseFloat :: "string \<Rightarrow> rat option" where
  \<comment> \<open>called on the result of \<open>stripNonNumeric\<close> only: the longest prefix that is a
      decimal literal (digits, then optionally a point and digits, at least one digit in
      all); \<open>None\<close> is NaN\<close>
  "parseFloat s =
     (let ip = takeWhile isDigit s;
          fp = (case dropWhile isDigit s of
                  [] \<Rightarrow> []
                | c # r \<Rightarrow> if c = CHR ''.'' then takeWhile isDigit r else [])
      in if ip = [] \<and> fp = [] then None
         else Some (of_nat (digitsToNat ip) + of_nat (digitsToNat fp) / 10 ^ length fp))"

fun showNat :: "nat \<Rightarrow> string" where
  "showNat n = (if n < 10 then [char_of (48 + n)]
                else showNat (n div 10) @ [char_of (48 + n mod 10)])"

definition numberToString :: "rat \<Rightarrow> string" where
  \<comment> \<open>the template conversion \<^verbatim>\<open>${x}\<close> for the thresholds the builder produces:
      non-negative, at most two decimals, below 1e21\<close>
  "numberToString x =
     (let h = nat \<lfloor>x * 100\<rfloor>; ip = h div 100; fp = h mod 100
      in showNat ip @
         (if fp = 0 then []
          else if fp mod 10 = 0 then [CHR ''.'', char_of (48 + fp div 10)]
          else [CHR ''.'', char_of (48 + fp div 10), char_of (48 + fp mod 10)]))"

datatype jsnum = Finite rat | PosInfinity | NegInfinity | NaN

fun num_gt :: "rat \<Rightarrow> jsnum \<Rightarrow> bool" where
  "num_gt x (Finite y) = (x > y)"
| "num_gt x PosInfinity = False"
| "num_gt x NegInfinity = True"
| "num_gt x NaN = False"

fun num_lt :: "rat \<Rightarrow> jsnum \<Rightarrow> bool" where
  "num_lt x (Finite y) = (x < y)"
| "num_lt x PosInfinity = True"
| "num_lt x NegInfinity = False"
| "num_lt x NaN = False"

section \<open>The regular expressions of the value extraction\<close>

text \<open>
  Both patterns have the shape \<^verbatim>\<open>(\d+)\s*(?:alt1|alt2|...)\<close>.  At a start position
  the digits are taken greedily, then the white space greedily, then the alternatives are
  tried in order; giving back a digit or a space never helps, since the next character
  would then have to start an alternative, and all alternatives start with a letter.
  The search returns the leftmost match: capture group 1 and the text the alternation
  matched.  The flag \<^verbatim>\<open>i\<close> changes nothing on lower-cased text.
\<close>

definition matchHere :: "string list \<Rightarrow> string \<Rightarrow> (string \<times> string) option" where
  "matchHere alts s =
     (let ds = takeWhile isDigit s
      in if ds = [] then None
         else map_option (Pair ds)
                (find (startsWith (dropWhile isSpace (dropWhile isDigit s))) alts))"

fun regexMatch :: "string list \<Rightarrow> string \<Rightarrow> (string \<times> string) option" where
  "regexMatch alts [] = None"
| "regexMatch alts (c # cs) =
     (case matchHere alts (c # cs) of
        Some r \<Rightarrow> Some r
      | None \<Rightarrow> regexMatch alts cs)"

definition heightUnits :: "string list" where
  \<comment> \<open>\<^verbatim>\<open>meters?|metres?|m|feet?|ft\<close>, an optional letter first tried present\<close>
  "heightUnits = [''meters'', ''meter'', ''metres'', ''metre'', ''m'', ''feet'', ''fee'', ''ft'']"

definition floorUnits :: "string list" where
  \<comment> \<open>\<^verbatim>\<open>floor|story\<close>\<close>
  "floorUnits = [''floor'', ''story'']"

section \<open>Data model\<close>

record properties =
  height_m :: "rat option"
  height_ft :: "rat option"
  height :: "string option"
  floors :: "rat option"
  building_type :: "string option"
  land_use :: "string option"

record building =
  building_id :: string
  properties :: "properties option"

datatype jsvalue = Num rat | Str string

record query_filter =
  attribute :: string
  operator :: string
  filter_value :: jsvalue
  description :: string

record project =
  p_username :: string
  p_name :: string
  p_description :: string
  target_area :: string
  total_buildings :: nat
  highlighted_count :: nat
  query_results :: "(string \<times> properties option) list"
  filters :: "query_filter list"
  query_text :: string

record zone_info =
  zone_name :: "string option"

record dashboard =
  selectedZone :: "string option"
  zoneData :: "zone_info option"
  buildings :: "building list"
  highlightedBuildings :: "building list"
  loading :: bool
  queryText :: string
  interpretedFilter :: "query_filter option"
  username :: string
  currentProject :: "project option"

definition getProp :: "(properties \<Rightarrow> 'a option) \<Rightarrow> building \<Rightarrow> 'a option" where
  \<comment> \<open>\<^verbatim>\<open>b.properties?.f\<close>\<close>
  "getProp f b = (case properties b of None \<Rightarrow> None | Some p \<Rightarrow> f p)"

definition truthyNum :: "rat option \<Rightarrow> bool" where
  \<comment> \<open>a number is truthy unless it is absent or zero\<close>
  "truthyNum v = (case v of None \<Rightarrow> False | Some x \<Rightarrow> x \<noteq> 0)"

definition truthyStr :: "string option \<Rightarrow> bool" where
  \<comment> \<open>a string is truthy unless it is absent or empty\<close>
  "truthyStr v = (case v of None \<Rightarrow> False | Some s \<Rightarrow> s \<noteq> [])"

section \<open>Query interpretation: \<^verbatim>\<open>handleQuerySubmit\<close>\<close>

text \<open>
  The operators are stored as the source writes them: \<open>''=''\<close> (eq), \<open>''>''\<close> (gt)
  and \<open>''<''\<close> (lt).
\<close>

definition heightInMeters :: "building \<Rightarrow> rat option" where
  \<comment> \<open>the local \<^verbatim>\<open>heightInMeters\<close> of the height callback; \<open>None\<close> is null or NaN\<close>
  "heightInMeters b =
     (if truthyNum (getProp height_m b) then getProp height_m b
      else if truthyNum (getProp height_ft b)
        then map_option (\<lambda>ft. ft * (3048 / 10000)) (getProp height_ft b)
      else if truthyStr (getProp height b) then
        (case getProp height b of
           None \<Rightarrow> None
         | Some h \<Rightarrow>
             (let heightStr = toLowerCase h
              in if str_includes heightStr ''ft'' \<or> str_includes heightStr ''feet''
                 then map_option (\<lambda>ftValue. ftValue * (3048 / 10000))
                        (parseFloat (stripNonNumeric heightStr))
                 else if str_includes heightStr ''m'' \<or> str_includes heightStr ''meters''
                         \<or> str_includes heightStr ''metres''
                 then parseFloat (stripNonNumeric heightStr)
                 else None))
      else None)"

definition heightFilterFn :: "string \<Rightarrow> rat \<Rightarrow> building \<Rightarrow> bool" where
  "heightFilterFn op heightValue b =
     (case heightInMeters b of
        None \<Rightarrow> False
      | Some h \<Rightarrow> if op = ''>'' then h > heightValue else h < heightValue)"

definition floorFilterFn :: "string \<Rightarrow> rat \<Rightarrow> building \<Rightarrow> bool" where
  "floorFilterFn op floorValue b =
     (if \<not> truthyNum (getProp floors b) then False
      else (case getProp floors b of
              None \<Rightarrow> False
            | Some n \<Rightarrow> if op = ''>'' then n > floorValue else n < floorValue))"

definition landUseOf :: "building \<Rightarrow> string" where
  \<comment> \<open>\<^verbatim>\<open>b.properties?.land_use?.toLowerCase() || ''\<close>\<close>
  "landUseOf b = (case getProp land_use b of None \<Rightarrow> [] | Some s \<Rightarrow> toLowerCase s)"

definition directionOf :: "string \<Rightarrow> string" where
  "directionOf query =
     (if str_includes query ''under'' \<or> str_includes query ''below''
         \<or> str_includes query ''less than'' then ''<'' else ''>'')"

definition heightValueOf :: "string \<Rightarrow> rat" where
  "heightValueOf query =
     (case regexMatch heightUnits query of
        None \<Rightarrow> 50
      | Some (ds, unit) \<Rightarrow>
          if str_includes query ''feet'' \<or> str_includes query ''ft''
          then Math_round (parseInt ds * (3048 / 10000) * 100) / 100
          else parseInt ds)"

definition floorValueOf :: "string \<Rightarrow> rat" where
  "floorValueOf query =
     (case regexMatch floorUnits query of
        None \<Rightarrow> 5
      | Some (ds, unit) \<Rightarrow> parseInt ds)"

definition typeQuery :: "string \<Rightarrow> string \<Rightarrow> building list \<Rightarrow> building list \<times> query_filter option" where
  "typeQuery ty descr bs =
     (filter (\<lambda>b. getProp building_type b = Some ty) bs,
      Some \<lparr>attribute = ''building_type'', operator = ''='', filter_value = Str ty,
            description = descr\<rparr>)"

definition heightQuery :: "string \<Rightarrow> building list \<Rightarrow> building list \<times> query_filter option" where
  "heightQuery query bs =
     (let heightValue = heightValueOf query; op = directionOf query
      in (filter (heightFilterFn op heightValue) bs,
          Some \<lparr>attribute = ''height_m'', operator = op, filter_value = Num heightValue,
                description = ''Buildings '' @ (if op = ''>'' then ''taller'' else ''shorter'')
                  @ '' than '' @ numberToString heightValue @ '' meters''\<rparr>))"

definition floorQuery :: "string \<Rightarrow> building list \<Rightarrow> building list \<times> query_filter option" where
  "floorQuery query bs =
     (let floorValue = floorValueOf query; op = directionOf query
      in (filter (floorFilterFn op floorValue) bs,
          Some \<lparr>attribute = ''floors'', operator = op, filter_value = Num floorValue,
                description = ''Buildings with '' @ (if op = ''>'' then ''more'' else ''fewer'')
                  @ '' than '' @ numberToString floorValue @ '' floors''\<rparr>))"

definition landUseQuery :: "string list \<Rightarrow> string \<Rightarrow> string \<Rightarrow> building list \<Rightarrow> building list \<times> query_filter option" where
  "landUseQuery keys v descr bs =
     (filter (\<lambda>b. list_ex (str_includes (landUseOf b)) keys) bs,
      Some \<lparr>attribute = ''land_use'', operator = ''='', filter_value = Str v,
            description = descr\<rparr>)"

definition interpretQuery :: "string \<Rightarrow> building list \<Rightarrow> building list \<times> query_filter option" where
  \<comment> \<open>the body of the \<^verbatim>\<open>try\<close> block, on the lower-cased query\<close>
  "interpretQuery query bs =
     (if str_includes query ''low rise'' \<or> str_includes query ''low-rise''
        then typeQuery ''low_rise'' ''Low rise buildings (2-4 floors)'' bs
      else if str_includes query ''mid rise'' \<or> str_includes query ''mid-rise''
              \<or> str_includes query ''medium rise''
        then typeQuery ''mid_rise'' ''Mid rise buildings (5-9 floors)'' bs
      else if str_includes query ''high rise'' \<or> str_includes query ''high-rise''
              \<or> str_includes query ''tall''
        then typeQuery ''high_rise'' ''High rise buildings (10+ floors)'' bs
      else if str_includes query ''single story'' \<or> str_includes query ''single-story''
              \<or> str_includes query ''one story''
        then typeQuery ''single_story'' ''Single story buildings'' bs
      else if str_includes query ''height'' \<or> str_includes query ''tall''
              \<or> str_includes query ''meters'' \<or> str_includes query ''metres''
              \<or> str_includes query ''feet'' \<or> str_includes query ''ft''
        then heightQuery query bs
      else if str_includes query ''floor'' \<or> str_includes query ''floors''
              \<or> str_includes query ''story'' \<or> str_includes query ''stories''
        then floorQuery query bs
      else if str_includes query ''commercial'' \<or> str_includes query ''business''
              \<or> str_includes query ''office'' \<or> str_includes query ''retail''
        then landUseQuery [''commercial'', ''business'', ''office'', ''retail'', ''shop'', ''store'']
               ''commercial'' ''Commercial buildings (business, office, retail)'' bs
      else if str_includes query ''residential'' \<or> str_includes query ''home''
              \<or> str_includes query ''house'' \<or> str_includes query ''apartment''
        then landUseQuery [''residential'', ''home'', ''house'', ''apartment'', ''condo'', ''dwelling'']
               ''residential'' ''Residential buildings (homes, apartments, condos)'' bs
      else if str_includes query ''mixed use'' \<or> str_includes query ''mixed-use''
              \<or> str_includes query ''mixed''
        then landUseQuery [''mixed'', ''multi'', ''combination'']
               ''mixed_use'' ''Mixed use buildings (residential + commercial)'' bs
      else ([], None))"

definition handleQuerySubmit :: "dashboard \<Rightarrow> dashboard" where
  \<comment> \<open>a blank query returns before anything is set; otherwise the state after the
      \<^verbatim>\<open>finally\<close> block\<close>
  "handleQuerySubmit st =
     (if trim (queryText st) = [] then st
      else (case interpretQuery (toLowerCase (queryText st)) (buildings st) of
              (filteredBuildings, flt) \<Rightarrow>
                st\<lparr>highlightedBuildings := filteredBuildings,
                   interpretedFilter := flt,
                   loading := False\<rparr>))"

section \<open>Clearing, saving and restoring\<close>

definition handleClearQuery :: "dashboard \<Rightarrow> dashboard" where
  "handleClearQuery st =
     st\<lparr>queryText := [], interpretedFilter := None, highlightedBuildings := []\<rparr>"

definition zoneLabel :: "dashboard \<Rightarrow> string" where
  \<comment> \<open>\<^verbatim>\<open>zoneData?.name || selectedZone\<close>, called with a truthy \<open>selectedZone\<close>\<close>
  "zoneLabel st =
     (case zoneData st of
        None \<Rightarrow> (case selectedZone st of None \<Rightarrow> [] | Some z \<Rightarrow> z)
      | Some zd \<Rightarrow>
          if truthyStr (zone_name zd) then (case zone_name zd of None \<Rightarrow> [] | Some n \<Rightarrow> n)
          else (case selectedZone st of None \<Rightarrow> [] | Some z \<Rightarrow> z))"

definition projectData :: "string \<Rightarrow> dashboard \<Rightarrow> project" where
  "projectData projectName st =
     \<lparr>p_username = username st,
      p_name = (if projectName \<noteq> [] then projectName else ''Analysis of '' @ zoneLabel st),
      p_description = ''LLM analysis of buildings in '' @ zoneLabel st,
      target_area = (case selectedZone st of None \<Rightarrow> [] | Some z \<Rightarrow> z),
      total_buildings = length (buildings st),
      highlighted_count = length (highlightedBuildings st),
      query_results = map (\<lambda>b. (building_id b, properties b)) (highlightedBuildings st),
      filters = (case interpretedFilter st of None \<Rightarrow> [] | Some f \<Rightarrow> [f]),
      query_text = queryText st\<rparr>"

datatype save_outcome = SaveResolved | SaveRejected

definition handleSaveProject :: "save_outcome \<Rightarrow> string \<Rightarrow> dashboard \<Rightarrow> project option \<times> dashboard" where
  \<comment> \<open>the first component is the project sent to the persistence service, if any; the
      outcome of the awaited call is an input.  The refresh of the project list started
      after a successful save touches none of the fields of \<open>dashboard\<close>.\<close>
  "handleSaveProject outcome projectName st =
     (if username st = [] \<or> \<not> truthyStr (selectedZone st) then (None, st)
      else (case outcome of
              SaveResolved \<Rightarrow>
                (Some (projectData projectName st),
                 st\<lparr>queryText := [], interpretedFilter := None, highlightedBuildings := []\<rparr>)
            | SaveRejected \<Rightarrow> (Some (projectData projectName st), st)))"

datatype js_error = TypeError

definition gtValue :: "(string \<Rightarrow> jsnum) \<Rightarrow> rat \<Rightarrow> jsvalue \<Rightarrow> bool" where
  \<comment> \<open>\<^verbatim>\<open>x > v\<close> for a number \<open>x\<close>: a string operand is converted by the runtime's
      \<^verbatim>\<open>ToNumber\<close>, which is a parameter of the model\<close>
  "gtValue toNumber x v = (case v of Num y \<Rightarrow> x > y | Str s \<Rightarrow> num_gt x (toNumber s))"

definition ltValue :: "(string \<Rightarrow> jsnum) \<Rightarrow> rat \<Rightarrow> jsvalue \<Rightarrow> bool" where
  "ltValue toNumber x v = (case v of Num y \<Rightarrow> x < y | Str s \<Rightarrow> num_lt x (toNumber s))"

definition restoreNumeric ::
  "(string \<Rightarrow> jsnum) \<Rightarrow> (properties \<Rightarrow> rat option) \<Rightarrow> query_filter \<Rightarrow> building list \<Rightarrow> building list" where
  \<comment> \<open>the branches for \<^verbatim>\<open>height_m\<close> and \<^verbatim>\<open>floors\<close>, which differ in the field read\<close>
  "restoreNumeric toNumber field savedFilter bs =
     (if operator savedFilter = ''>'' then
        filter (\<lambda>b. truthyNum (getProp field b) \<and>
                  (case getProp field b of None \<Rightarrow> False
                   | Some x \<Rightarrow> gtValue toNumber x (filter_value savedFilter))) bs
      else if operator savedFilter = ''<'' then
        filter (\<lambda>b. truthyNum (getProp field b) \<and>
                  (case getProp field b of None \<Rightarrow> False
                   | Some x \<Rightarrow> ltValue toNumber x (filter_value savedFilter))) bs
      else [])"

definition restoreLandUse :: "string \<Rightarrow> building \<Rightarrow> bool" where
  "restoreLandUse v b =
     (let buildingLandUse = landUseOf b; filterValue = toLowerCase v
      in if filterValue = ''commercial'' then
           list_ex (str_includes buildingLandUse) [''commercial'', ''business'', ''office'', ''retail'']
         else if filterValue = ''residential'' then
           list_ex (str_includes buildingLandUse) [''residential'', ''home'', ''house'', ''apartment'']
         else if filterValue = ''mixed_use'' then
           list_ex (str_includes buildingLandUse) [''mixed'', ''multi'', ''combination'']
         else buildingLandUse = filterValue)"

definition applySavedFilter ::
  "(string \<Rightarrow> jsnum) \<Rightarrow> query_filter \<Rightarrow> building list \<Rightarrow> js_error + building list" where
  \<comment> \<open>the value of \<^verbatim>\<open>filteredBuildings\<close>, or the exception raised when the land-use
      callback calls \<^verbatim>\<open>toLowerCase\<close> on a number (the callback runs only when there
      is a building)\<close>
  "applySavedFilter toNumber savedFilter bs =
     (if attribute savedFilter = ''height_m'' then Inr (restoreNumeric toNumber height_m savedFilter bs)
      else if attribute savedFilter = ''floors'' then Inr (restoreNumeric toNumber floors savedFilter bs)
      else if attribute savedFilter = ''building_type'' then
        Inr (filter (\<lambda>b. (case getProp building_type b of
                             None \<Rightarrow> False
                           | Some t \<Rightarrow> Str t = filter_value savedFilter)) bs)
      else if attribute savedFilter = ''land_use'' then
        (case filter_value savedFilter of
           Num n \<Rightarrow> if bs = [] then Inr [] else Inl TypeError
         | Str v \<Rightarrow> Inr (filter (restoreLandUse v) bs))
      else Inr [])"

definition handleLoadProject :: "(string \<Rightarrow> jsnum) \<Rightarrow> project option \<Rightarrow> dashboard \<Rightarrow> dashboard" where
  \<comment> \<open>an exception is caught after \<^verbatim>\<open>currentProject\<close> and \<^verbatim>\<open>interpretedFilter\<close>
      have been set\<close>
  "handleLoadProject toNumber p st =
     (case p of
        None \<Rightarrow> st
      | Some proj \<Rightarrow>
          (case filters proj of
             [] \<Rightarrow> st\<lparr>currentProject := Some proj\<rparr>
           | savedFilter # rest \<Rightarrow>
               (case applySavedFilter toNumber savedFilter (buildings st) of
                  Inl err \<Rightarrow> st\<lparr>currentProject := Some proj, interpretedFilter := Some savedFilter\<rparr>
                | Inr filteredBuildings \<Rightarrow>
                    st\<lparr>currentProject := Some proj,
                       interpretedFilter := Some savedFilter,
                       highlightedBuildings := filteredBuildings,
                       queryText := (if query_text proj \<noteq> [] then query_text proj
                                     else queryText st)\<rparr>)))"

section \<open>Intents and example data\<close>

text \<open>
  The conditions of the dispatch chain of \<open>interpretQuery\<close>, named: no building-type
  rule applies (rules 1 to 4), the height rule is the first to apply, the floors rule is
  the first to apply, and no rule applies at all.
\<close>

definition noTypeRule :: "string \<Rightarrow> bool" where
  "noTypeRule query =
     (\<not> list_ex (str_includes query)
          [''low rise'', ''low-rise'', ''mid rise'', ''mid-rise'', ''medium rise'',
           ''high rise'', ''high-rise'', ''tall'',
           ''single story'', ''single-story'', ''one story''])"

definition heightIntent :: "string \<Rightarrow> bool" where
  "heightIntent query =
     (noTypeRule query \<and>
      list_ex (str_includes query) [''height'', ''tall'', ''meters'', ''metres'', ''feet'', ''ft''])"

definition floorsIntent :: "string \<Rightarrow> bool" where
  "floorsIntent query =
     (noTypeRule query \<and>
      \<not> list_ex (str_includes query) [''height'', ''tall'', ''meters'', ''metres'', ''feet'', ''ft''] \<and>
      list_ex (str_includes query) [''floor'', ''floors'', ''story'', ''stories''])"


definition highRiseFilter :: query_filter where
  "highRiseFilter = \<lparr>attribute = ''building_type'', operator = ''='',
     filter_value = Str ''high_rise'', description = ''High rise buildings (10+ floors)''\<rparr>"

definition lowRiseFilter :: query_filter where
  "lowRiseFilter = \<lparr>attribute = ''building_type'', operator = ''='',
     filter_value = Str ''low_rise'', description = ''Low rise buildings (2-4 floors)''\<rparr>"

definition demoState :: "string \<Rightarrow> building list \<Rightarrow> dashboard" where
  "demoState q bs =
     \<lparr>selectedZone = Some ''beltline'', zoneData = None, buildings = bs,
      highlightedBuildings = [], loading = False, queryText = q,
      interpretedFilter = None, username = ''ada'', currentProject = None\<rparr>"

definition noProps :: properties where
  "noProps = \<lparr>height_m = None, height_ft = None, height = None, floors = None,
     building_type = None, land_use = None\<rparr>"

definition tower :: building where
  "tower = \<lparr>building_id = ''b1'', properties = Some (noProps\<lparr>building_type := Some ''high_rise''\<rparr>)\<rparr>"

definition staleState :: dashboard where
  \<comment> \<open>a blank query text over the result of an earlier query\<close>
  "staleState = (demoState ''   '' [tower])\<lparr>highlightedBuildings := [tower],
     interpretedFilter := Some highRiseFilter\<rparr>"

definition zoningProject :: project where
  "zoningProject =
     \<lparr>p_username = ''ada'', p_name = ''zoning'', p_description = [], target_area = ''beltline'',
      total_buildings = 1, highlighted_count = 1, query_results = [],
      filters = [\<lparr>attribute = ''zoning'', operator = ''='', filter_value = Str ''C-COR1'',
                  description = []\<rparr>],
      query_text = ''zoning C-COR1''\<rparr>"

definition noCoercion :: "string \<Rightarrow> jsnum" where
  "noCoercion s = NaN"

definition residentialIntent :: "string \<Rightarrow> bool" where
  "residentialIntent query =
     (noTypeRule query \<and>
      \<not> list_ex (str_includes query)
          [''height'', ''tall'', ''meters'', ''metres'', ''feet'', ''ft'',
           ''floor'', ''floors'', ''story'', ''stories'',
           ''commercial'', ''business'', ''office'', ''retail''] \<and>
      list_ex (str_includes query) [''residential'', ''home'', ''house'', ''apartment''])"

definition residentialFilter :: query_filter where
  "residentialFilter = \<lparr>attribute = ''land_use'', operator = ''='',
     filter_value = Str ''residential'',
     description = ''Residential buildings (homes, apartments, condos)''\<rparr>"

definition condo :: building where
  "condo = \<lparr>building_id = ''b2'', properties = Some (noProps\<lparr>land_use := Some ''Condo Tower''\<rparr>)\<rparr>"

definition mixedRetail :: building where
  "mixedRetail = \<lparr>building_id = ''b3'',
     properties = Some (noProps\<lparr>land_use := Some ''Mixed Residential/Retail''\<rparr>)\<rparr>"


definition feet80 :: building where
  "feet80 = \<lparr>building_id = ''b5'', properties = Some (noProps\<lparr>height_ft := Some 80\<rparr>)\<rparr>"



definition zeroFloors :: building where
  "zeroFloors = \<lparr>building_id = ''b6'', properties = Some (noProps\<lparr>floors := Some 0\<rparr>)\<rparr>"

definition zeroHeight :: building where
  "zeroHeight = \<lparr>building_id = ''b7'',
     properties = Some (noProps\<lparr>height_m := Some 0, height_ft := Some 80\<rparr>)\<rparr>"








definition over10FloorsFilter :: query_filter where
  "over10FloorsFilter = \<lparr>attribute = ''floors'', operator = ''>'', filter_value = Num 10,
     description = ''Buildings with more than 10 floors''\<rparr>"

definition sixResidentialKeys :: "string list" where
  "sixResidentialKeys = [''residential'', ''home'', ''house'', ''apartment'', ''condo'', ''dwelling'']"

definition fourResidentialKeys :: "string list" where
  "fourResidentialKeys = [''residential'', ''home'', ''house'', ''apartment'']"

definition fewFloorsState :: dashboard where
  "fewFloorsState = demoState ''buildings under 5 floors'' [zeroFloors]"

definition fewFloorsProject :: project where
  "fewFloorsProject = projectData ''few floors'' (handleQuerySubmit fewFloorsState)"

definition over10mState :: dashboard where
  "over10mState = demoState ''buildings over 10 meters'' [feet80]"

definition over10mFilter :: query_filter where
  "over10mFilter = \<lparr>attribute = ''height_m'', operator = ''>'', filter_value = Num 10,
     description = ''Buildings taller than 10 meters''\<rparr>"

section \<open>Blank and non-blank queries\<close>

lemma isSpace_lowerChar: "isSpace c \<Longrightarrow> lowerChar c = c"
  by (auto simp: isSpace_def lowerChar_def Let_def)

lemma trim_nonblank:
  assumes "c \<in> set s" and "\<not> isSpace c"
  shows "trim s \<noteq> []"
proof -
  let ?d = "dropWhile isSpace s"
  from assms have ne: "?d \<noteq> []" by auto
  then have "\<not> isSpace (hd ?d)" by (rule hd_dropWhile)
  moreover from ne have "hd ?d \<in> set (rev ?d)" by simp
  ultimately have "dropWhile isSpace (rev ?d) \<noteq> []"
    by auto
  then show ?thesis by (simp add: trim_def)
qed

lemma startsWith_hd: "startsWith s (a # ks) \<Longrightarrow> a \<in> set s"
  by (cases s) auto

lemma str_includes_hd: "str_includes s (a # ks) \<Longrightarrow> a \<in> set s"
  by (induction s) (auto dest: startsWith_hd)

lemma includes_lower_nonblank:
  assumes "str_includes (toLowerCase q) (a # ks)" and "\<not> isSpace a"
  shows "trim q \<noteq> []"
proof -
  from assms(1) have "a \<in> set (map lowerChar q)"
    unfolding toLowerCase_def by (rule str_includes_hd)
  then obtain c where c: "c \<in> set q" "lowerChar c = a" by auto
  with assms(2) have "\<not> isSpace c" using isSpace_lowerChar by fastforce
  with c(1) show ?thesis by (rule trim_nonblank)
qed

lemma keyword_nonblank:
  assumes "list_ex (str_includes (toLowerCase q)) ks"
    and "list_all (\<lambda>k. k \<noteq> [] \<and> \<not> isSpace (hd k)) ks"
  shows "trim q \<noteq> []"
proof -
  from assms obtain k where k: "str_includes (toLowerCase q) k" "k \<noteq> []" "\<not> isSpace (hd k)"
    by (auto simp: list_ex_iff list_all_iff)
  then obtain a r where "k = a # r" by (cases k) auto
  with k show ?thesis using includes_lower_nonblank [of q a r] by simp
qed

lemma handleQuerySubmit_nonblank:
  "trim (queryText st) \<noteq> [] \<Longrightarrow>
   handleQuerySubmit st =
     st\<lparr>highlightedBuildings := fst (interpretQuery (toLowerCase (queryText st)) (buildings st)),
        interpretedFilter := snd (interpretQuery (toLowerCase (queryText st)) (buildings st)),
        loading := False\<rparr>"
  by (simp add: handleQuerySubmit_def split: prod.splits)

lemma heightIntent_nonblank: "heightIntent (toLowerCase q) \<Longrightarrow> trim q \<noteq> []"
  unfolding heightIntent_def
  by (erule conjE, erule keyword_nonblank) (simp add: isSpace_def)

lemma floorsIntent_nonblank: "floorsIntent (toLowerCase q) \<Longrightarrow> trim q \<noteq> []"
  unfolding floorsIntent_def
  by (elim conjE, erule keyword_nonblank) (simp add: isSpace_def)

section \<open>The dispatch chain\<close>

lemma interpretQuery_height: "heightIntent query \<Longrightarrow> interpretQuery query bs = heightQuery query bs"
  by (auto simp: heightIntent_def noTypeRule_def interpretQuery_def)

lemma interpretQuery_floors: "floorsIntent query \<Longrightarrow> interpretQuery query bs = floorQuery query bs"
  by (auto simp: floorsIntent_def noTypeRule_def interpretQuery_def)


text \<open>
  C2 (amended).  A query whose lower-cased text contains \<open>tall\<close> and none of the
  keywords of the two rules tested earlier (low rise, low-rise, mid rise, mid-rise,
  medium rise) is interpreted as the filter building_type = high_rise, and the buildings
  of that type are highlighted; the height rule is never reached.
\<close>

theorem C2_tall_precedence:
  assumes tall: "str_includes (toLowerCase (queryText st)) ''tall''"
    and nolow: "\<not> list_ex (str_includes (toLowerCase (queryText st)))
                  [''low rise'', ''low-rise'', ''mid rise'', ''mid-rise'', ''medium rise'']"
  shows "interpretedFilter (handleQuerySubmit st) = Some highRiseFilter
    \<and> highlightedBuildings (handleQuerySubmit st)
        = filter (\<lambda>b. getProp building_type b = Some ''high_rise'') (buildings st)"
proof -
  have "\<not> isSpace CHR ''t''" by (simp add: isSpace_def)
  with tall have "trim (queryText st) \<noteq> []" by (rule includes_lower_nonblank)
  note sub = handleQuerySubmit_nonblank [OF this]
  show ?thesis
    using tall nolow by (simp add: sub interpretQuery_def typeQuery_def highRiseFilter_def)
qed

theorem C2_tall_precedence_witness:
  "interpretedFilter (handleQuerySubmit (demoState ''show buildings over 100 feet tall'' [tower]))
     = Some highRiseFilter
   \<and> highlightedBuildings (handleQuerySubmit (demoState ''show buildings over 100 feet tall'' [tower]))
     = [tower]"
proof -
  let ?st = "demoState ''show buildings over 100 feet tall'' [tower]"
  have h1: "str_includes (toLowerCase (queryText ?st)) ''tall''" by code_simp
  have h2: "\<not> list_ex (str_includes (toLowerCase (queryText ?st)))
                  [''low rise'', ''low-rise'', ''mid rise'', ''mid-rise'', ''medium rise'']"
    by code_simp
  have h3: "filter (\<lambda>b. getProp building_type b = Some ''high_rise'') (buildings ?st) = [tower]"
    by code_simp
  from C2_tall_precedence [OF h1 h2] h3 show ?thesis by simp
qed

text \<open>
  The claim as stated fails: the text \<open>tall low rise towers\<close> contains \<open>tall\<close> and is
  interpreted as building_type = low_rise, by the first rule of the chain.
\<close>

theorem C2_tall_counterexample:
  "str_includes (toLowerCase ''tall low rise towers'') ''tall''
   \<and> interpretedFilter (handleQuerySubmit (demoState ''tall low rise towers'' [])) = Some lowRiseFilter
   \<and> lowRiseFilter \<noteq> highRiseFilter"
  by code_simp

section \<open>Unclassifiable queries\<close>




section \<open>Saving\<close>

text \<open>
  C10.  When a save is attempted (a user name and a zone are set) and the call succeeds,
  the query text becomes the empty string, the interpreted filter null and the
  highlighted subset empty; when the call fails the state is left as it was.
\<close>

theorem C10_save:
  assumes "username st \<noteq> []" and "truthyStr (selectedZone st)"
  shows "queryText (snd (handleSaveProject SaveResolved projectName st)) = []
    \<and> interpretedFilter (snd (handleSaveProject SaveResolved projectName st)) = None
    \<and> highlightedBuildings (snd (handleSaveProject SaveResolved projectName st)) = []
    \<and> fst (handleSaveProject SaveResolved projectName st) = Some (projectData projectName st)
    \<and> snd (handleSaveProject SaveRejected projectName st) = st"
  using assms by (simp add: handleSaveProject_def)

theorem C10_save_witness:
  "queryText (snd (handleSaveProject SaveResolved ''towers'' staleState)) = []
    \<and> interpretedFilter (snd (handleSaveProject SaveResolved ''towers'' staleState)) = None
    \<and> highlightedBuildings (snd (handleSaveProject SaveResolved ''towers'' staleState)) = []
    \<and> fst (handleSaveProject SaveResolved ''towers'' staleState) = Some (projectData ''towers'' staleState)
    \<and> snd (handleSaveProject SaveRejected ''towers'' staleState) = staleState"
proof -
  have h1: "username staleState \<noteq> []" by code_simp
  have h2: "truthyStr (selectedZone staleState)" by code_simp
  show ?thesis by (rule C10_save [OF h1 h2])
qed

section \<open>Restoring\<close>

text \<open>
  C8.  Restoring a project whose first filter has an attribute other than building_type,
  height_m, floors and land_use raises nothing and sets the highlighted subset to the
  empty list.
\<close>

theorem C8_unknown_attribute:
  assumes "filters proj = f # rest"
    and "attribute f \<notin> {''building_type'', ''height_m'', ''floors'', ''land_use''}"
  shows "applySavedFilter toNumber f (buildings st) = Inr []
    \<and> highlightedBuildings (handleLoadProject toNumber (Some proj) st) = []
    \<and> interpretedFilter (handleLoadProject toNumber (Some proj) st) = Some f"
  using assms by (simp add: handleLoadProject_def applySavedFilter_def)

theorem C8_unknown_attribute_witness:
  "applySavedFilter noCoercion (hd (filters zoningProject)) (buildings staleState) = Inr []
    \<and> highlightedBuildings (handleLoadProject noCoercion (Some zoningProject) staleState) = []
    \<and> interpretedFilter (handleLoadProject noCoercion (Some zoningProject) staleState)
        = Some (hd (filters zoningProject))"
proof -
  have h1: "filters zoningProject = hd (filters zoningProject) # []" by code_simp
  have h2: "attribute (hd (filters zoningProject))
              \<notin> {''building_type'', ''height_m'', ''floors'', ''land_use''}"
    by code_simp
  show ?thesis by (rule C8_unknown_attribute [OF h1 h2])
qed

section \<open>What a match of the regular expression contains\<close>

lemma startsWith_includes: "startsWith s u \<Longrightarrow> str_includes s u"
  by (cases s; cases u) auto

lemma includes_dropWhile: "str_includes (dropWhile P s) u \<Longrightarrow> str_includes s u"
  by (induction s) (auto split: if_splits)

lemma matchHere_unit:
  assumes "matchHere alts s = Some (ds, u)"
  shows "str_includes s u"
proof -
  from assms have "startsWith (dropWhile isSpace (dropWhile isDigit s)) u"
    by (auto simp: matchHere_def Let_def find_Some_iff split: if_splits)
  then have "str_includes (dropWhile isSpace (dropWhile isDigit s)) u"
    by (rule startsWith_includes)
  then have "str_includes (dropWhile isDigit s) u"
    by (rule includes_dropWhile)
  then show ?thesis
    by (rule includes_dropWhile)
qed

lemma regexMatch_unit: "regexMatch alts q = Some (ds, u) \<Longrightarrow> str_includes q u"
proof (induction q)
  case Nil
  then show ?case by simp
next
  case (Cons c cs)
  show ?case
  proof (cases "matchHere alts (c # cs)")
    case None
    with Cons show ?thesis by simp
  next
    case (Some r)
    with Cons.prems have "matchHere alts (c # cs) = Some (ds, u)" by simp
    then show ?thesis by (rule matchHere_unit)
  qed
qed

section \<open>Height resolution\<close>




lemma handleQuerySubmit_height:
  assumes "heightIntent (toLowerCase (queryText st))"
  shows "handleQuerySubmit st =
     st\<lparr>highlightedBuildings := fst (heightQuery (toLowerCase (queryText st)) (buildings st)),
        interpretedFilter := snd (heightQuery (toLowerCase (queryText st)) (buildings st)),
        loading := False\<rparr>"
  using assms
  by (simp add: handleQuerySubmit_nonblank heightIntent_nonblank interpretQuery_height)

lemma handleQuerySubmit_floors:
  assumes "floorsIntent (toLowerCase (queryText st))"
  shows "handleQuerySubmit st =
     st\<lparr>highlightedBuildings := fst (floorQuery (toLowerCase (queryText st)) (buildings st)),
        interpretedFilter := snd (floorQuery (toLowerCase (queryText st)) (buildings st)),
        loading := False\<rparr>"
  using assms
  by (simp add: handleQuerySubmit_nonblank floorsIntent_nonblank interpretQuery_floors)



section \<open>Height value extraction\<close>

text \<open>
  C3 (amended).  For every query classified as height intent the filter is on height_m;
  its operator is \<open>''<''\<close> when the query contains under, below or less than, and
  \<open>''>''\<close> otherwise; its value is 50 when the pattern does not match, and otherwise
  the matched integer, converted to meters and rounded to two decimals when the query
  contains \<open>feet\<close> or \<open>ft\<close> anywhere (which it does whenever the matched unit is
  \<open>feet\<close> or \<open>ft\<close>), and unchanged when it contains neither.
\<close>

theorem C3_height_value:
  assumes hi: "heightIntent (toLowerCase (queryText st))"
  shows "map_option (\<lambda>f. (attribute f, operator f, filter_value f))
           (interpretedFilter (handleQuerySubmit st))
         = Some (''height_m'',
                 (if str_includes (toLowerCase (queryText st)) ''under''
                     \<or> str_includes (toLowerCase (queryText st)) ''below''
                     \<or> str_includes (toLowerCase (queryText st)) ''less than''
                  then ''<'' else ''>''),
                 Num (case regexMatch heightUnits (toLowerCase (queryText st)) of
                        None \<Rightarrow> 50
                      | Some (ds, unit) \<Rightarrow>
                          if str_includes (toLowerCase (queryText st)) ''feet''
                             \<or> str_includes (toLowerCase (queryText st)) ''ft''
                          then Math_round (feetToMeters (parseInt ds) * 100) / 100
                          else parseInt ds))
    \<and> (\<forall>ds unit. regexMatch heightUnits (toLowerCase (queryText st)) = Some (ds, unit)
          \<longrightarrow> unit = ''feet'' \<or> unit = ''ft''
          \<longrightarrow> str_includes (toLowerCase (queryText st)) ''feet''
              \<or> str_includes (toLowerCase (queryText st)) ''ft'')"
proof -
  have "map_option (\<lambda>f. (attribute f, operator f, filter_value f))
           (snd (heightQuery q bs))
        = Some (''height_m'', directionOf q, Num (heightValueOf q))" for q bs
    by (simp add: heightQuery_def Let_def)
  then have A: "map_option (\<lambda>f. (attribute f, operator f, filter_value f))
           (interpretedFilter (handleQuerySubmit st))
        = Some (''height_m'', directionOf (toLowerCase (queryText st)),
                Num (heightValueOf (toLowerCase (queryText st))))"
    by (simp add: handleQuerySubmit_height [OF hi])
  have B: "unit = ''feet'' \<or> unit = ''ft'' \<Longrightarrow> str_includes (toLowerCase (queryText st)) ''feet''
              \<or> str_includes (toLowerCase (queryText st)) ''ft''"
    if "regexMatch heightUnits (toLowerCase (queryText st)) = Some (ds, unit)" for ds unit
    using regexMatch_unit [OF that] by auto
  show ?thesis
    unfolding A using B
    by (simp add: directionOf_def heightValueOf_def feetToMeters_def split: option.splits)
qed

theorem C3_height_value_witness:
  "heightIntent (toLowerCase (queryText (demoState ''Height over 100 feet'' [])))
   \<and> regexMatch heightUnits (toLowerCase ''Height over 100 feet'') = Some (''100'', ''feet'')
   \<and> map_option (\<lambda>f. (attribute f, operator f, filter_value f))
        (interpretedFilter (handleQuerySubmit (demoState ''Height over 100 feet'' [])))
      = Some (''height_m'', ''>'', Num (3048 / 100))"
proof -
  let ?st = "demoState ''Height over 100 feet'' []"
  have h: "heightIntent (toLowerCase (queryText ?st))" by code_simp
  have m: "regexMatch heightUnits (toLowerCase ''Height over 100 feet'') = Some (''100'', ''feet'')"
    by code_simp
  have e: "Some (''height_m'',
                 (if str_includes (toLowerCase (queryText ?st)) ''under''
                     \<or> str_includes (toLowerCase (queryText ?st)) ''below''
                     \<or> str_includes (toLowerCase (queryText ?st)) ''less than''
                  then ''<'' else ''>''),
                 Num (case regexMatch heightUnits (toLowerCase (queryText ?st)) of
                        None \<Rightarrow> 50
                      | Some (ds, unit) \<Rightarrow>
                          if str_includes (toLowerCase (queryText ?st)) ''feet''
                             \<or> str_includes (toLowerCase (queryText ?st)) ''ft''
                          then Math_round (feetToMeters (parseInt ds) * 100) / 100
                          else parseInt ds))
      = Some (''height_m'', ''>'', Num (3048 / 100))" by code_simp
  from C3_height_value [OF h] have
    "map_option (\<lambda>f. (attribute f, operator f, filter_value f))
        (interpretedFilter (handleQuerySubmit ?st))
      = Some (''height_m'', ''>'', Num (3048 / 100))"
    unfolding e by (rule conjunct1)
  with h m show ?thesis by simp
qed

text \<open>
  The claim as stated fails: in \<open>buildings over 30 meters or 100 ft\<close> the pattern
  matches \<open>30 meters\<close>, a meters unit, and the value is 9.14, not 30, because the
  text contains \<open>ft\<close> further on.
\<close>

theorem C3_unit_counterexample:
  "heightIntent (toLowerCase ''buildings over 30 meters or 100 ft'')
   \<and> regexMatch heightUnits (toLowerCase ''buildings over 30 meters or 100 ft'') = Some (''30'', ''meters'')
   \<and> map_option filter_value
        (interpretedFilter (handleQuerySubmit (demoState ''buildings over 30 meters or 100 ft'' [])))
      = Some (Num (914 / 100))
   \<and> Num (914 / 100) \<noteq> Num (parseInt ''30'')"
  by code_simp

section \<open>Land use queries\<close>

lemma residentialIntent_nonblank: "residentialIntent (toLowerCase q) \<Longrightarrow> trim q \<noteq> []"
  unfolding residentialIntent_def
  by (elim conjE, erule keyword_nonblank) (simp add: isSpace_def)

lemma interpretQuery_residential:
  "residentialIntent query \<Longrightarrow>
   interpretQuery query bs =
     landUseQuery sixResidentialKeys ''residential''
       ''Residential buildings (homes, apartments, condos)'' bs"
  by (auto simp: residentialIntent_def noTypeRule_def interpretQuery_def sixResidentialKeys_def)

text \<open>
  C5 (amended).  The query \<open>show residential buildings\<close> gives the filter
  land_use = residential and highlights exactly the records whose lower-cased land_use
  contains one of the six keywords residential, home, house, apartment, condo, dwelling;
  a record with land_use \<open>Mixed Residential/Retail\<close> is among them.
\<close>

theorem C5_residential:
  assumes q: "queryText st = ''show residential buildings''"
  shows "interpretedFilter (handleQuerySubmit st) = Some residentialFilter
    \<and> highlightedBuildings (handleQuerySubmit st)
        = filter (\<lambda>b. list_ex (str_includes (landUseOf b)) sixResidentialKeys) (buildings st)
    \<and> (\<forall>b \<in> set (buildings st).
          getProp land_use b = Some ''Mixed Residential/Retail''
          \<longrightarrow> b \<in> set (highlightedBuildings (handleQuerySubmit st)))"
proof -
  have ri: "residentialIntent (toLowerCase ''show residential buildings'')" by code_simp
  then have nb: "trim ''show residential buildings'' \<noteq> []" by (rule residentialIntent_nonblank)
  have sub: "handleQuerySubmit st =
     st\<lparr>highlightedBuildings :=
          filter (\<lambda>b. list_ex (str_includes (landUseOf b)) sixResidentialKeys) (buildings st),
        interpretedFilter := Some residentialFilter, loading := False\<rparr>"
    using ri nb
    by (simp add: handleQuerySubmit_nonblank q interpretQuery_residential landUseQuery_def
          residentialFilter_def)
  have m: "list_ex (str_includes (toLowerCase ''Mixed Residential/Retail'')) sixResidentialKeys"
    by code_simp
  have "list_ex (str_includes (landUseOf b)) sixResidentialKeys"
    if "getProp land_use b = Some ''Mixed Residential/Retail''" for b
    using that m by (simp add: landUseOf_def)
  then show ?thesis by (simp add: sub)
qed

theorem C5_residential_witness:
  "interpretedFilter
     (handleQuerySubmit (demoState ''show residential buildings'' [tower, mixedRetail, condo]))
     = Some residentialFilter
   \<and> highlightedBuildings
     (handleQuerySubmit (demoState ''show residential buildings'' [tower, mixedRetail, condo]))
     = [mixedRetail, condo]
   \<and> mixedRetail \<in> set (highlightedBuildings
       (handleQuerySubmit (demoState ''show residential buildings'' [tower, mixedRetail, condo])))"
proof -
  let ?st = "demoState ''show residential buildings'' [tower, mixedRetail, condo]"
  have q: "queryText ?st = ''show residential buildings''" by code_simp
  have b: "mixedRetail \<in> set (buildings ?st)"
    "getProp land_use mixedRetail = Some ''Mixed Residential/Retail''" by code_simp+
  have e: "filter (\<lambda>b. list_ex (str_includes (landUseOf b)) sixResidentialKeys) (buildings ?st)
      = [mixedRetail, condo]" by code_simp
  note t = C5_residential [OF q]
  from t have "\<forall>b \<in> set (buildings ?st).
          getProp land_use b = Some ''Mixed Residential/Retail''
          \<longrightarrow> b \<in> set (highlightedBuildings (handleQuerySubmit ?st))" by blast
  with b have "mixedRetail \<in> set (highlightedBuildings (handleQuerySubmit ?st))" by blast
  with t e show ?thesis by simp
qed

text \<open>
  The claim as stated fails: a record with land_use \<open>Condo Tower\<close> is highlighted and
  its land_use contains none of the four keywords residential, home, house, apartment.
\<close>

theorem C5_condo_counterexample:
  "highlightedBuildings (handleQuerySubmit (demoState ''show residential buildings'' [condo])) = [condo]
   \<and> \<not> list_ex (str_includes (landUseOf condo)) fourResidentialKeys"
  by code_simp

section \<open>Floor queries\<close>

lemma floorFilterFn_present: "floorFilterFn op v b \<Longrightarrow> \<exists>n. getProp floors b = Some n \<and> n \<noteq> 0"
  by (auto simp: floorFilterFn_def truthyNum_def split: option.splits if_splits)

text \<open>
  C6.  The query \<open>find buildings with more than 10 floors\<close> gives the filter
  floors > 10, and every highlighted record has a floors property, so a record without
  one is excluded.  For every query classified as floors intent the threshold is the
  matched integer, and 5 when the pattern does not match.
\<close>

theorem C6_floors:
  assumes q: "queryText st = ''find buildings with more than 10 floors''"
    and fi: "floorsIntent (toLowerCase (queryText st2))"
  shows "interpretedFilter (handleQuerySubmit st) = Some over10FloorsFilter
    \<and> highlightedBuildings (handleQuerySubmit st)
        = filter (\<lambda>b. case getProp floors b of None \<Rightarrow> False | Some n \<Rightarrow> n > 10) (buildings st)
    \<and> list_all (\<lambda>b. getProp floors b \<noteq> None) (highlightedBuildings (handleQuerySubmit st))
    \<and> map_option (\<lambda>f. (attribute f, filter_value f)) (interpretedFilter (handleQuerySubmit st2))
        = Some (''floors'',
                Num (case regexMatch floorUnits (toLowerCase (queryText st2)) of
                       None \<Rightarrow> 5
                     | Some (ds, unit) \<Rightarrow> parseInt ds))"
proof -
  have hi: "floorsIntent (toLowerCase ''find buildings with more than 10 floors'')" by code_simp
  have v: "floorValueOf (toLowerCase ''find buildings with more than 10 floors'') = 10" by code_simp
  have d: "directionOf (toLowerCase ''find buildings with more than 10 floors'') = ''>''" by code_simp
  have n: "numberToString 10 = ''10''" by code_simp
  have fn: "floorFilterFn ''>'' 10 = (\<lambda>b. case getProp floors b of None \<Rightarrow> False | Some n \<Rightarrow> n > 10)"
    by (rule ext) (auto simp: floorFilterFn_def truthyNum_def split: option.splits)
  have sub: "handleQuerySubmit st =
     st\<lparr>highlightedBuildings :=
          filter (\<lambda>b. case getProp floors b of None \<Rightarrow> False | Some n \<Rightarrow> n > 10) (buildings st),
        interpretedFilter := Some over10FloorsFilter, loading := False\<rparr>"
    using hi
    by (simp add: handleQuerySubmit_floors q floorQuery_def Let_def v d n fn over10FloorsFilter_def)
  have A: "list_all (\<lambda>b. getProp floors b \<noteq> None)
     (filter (\<lambda>b. case getProp floors b of None \<Rightarrow> False | Some n \<Rightarrow> n > 10) (buildings st))"
    by (auto simp: list_all_iff split: option.splits)
  have B: "map_option (\<lambda>f. (attribute f, filter_value f)) (interpretedFilter (handleQuerySubmit st2))
        = Some (''floors'', Num (floorValueOf (toLowerCase (queryText st2))))"
    by (simp add: handleQuerySubmit_floors [OF fi] floorQuery_def Let_def)
  show ?thesis
    using A B by (simp add: sub floorValueOf_def)
qed

theorem C6_floors_witness:
  "interpretedFilter (handleQuerySubmit (demoState ''find buildings with more than 10 floors'' [tower, zeroFloors]))
     = Some over10FloorsFilter
   \<and> highlightedBuildings (handleQuerySubmit (demoState ''find buildings with more than 10 floors'' [tower, zeroFloors]))
     = []
   \<and> regexMatch floorUnits (toLowerCase ''Buildings with many floors'') = None
   \<and> map_option (\<lambda>f. (attribute f, filter_value f))
        (interpretedFilter (handleQuerySubmit (demoState ''Buildings with many floors'' [])))
      = Some (''floors'', Num 5)"
proof -
  let ?st = "demoState ''find buildings with more than 10 floors'' [tower, zeroFloors]"
  let ?st2 = "demoState ''Buildings with many floors'' []"
  have q: "queryText ?st = ''find buildings with more than 10 floors''" by code_simp
  have fi: "floorsIntent (toLowerCase (queryText ?st2))" by code_simp
  have e: "filter (\<lambda>b. case getProp floors b of None \<Rightarrow> False | Some n \<Rightarrow> n > 10) (buildings ?st) = []"
    by code_simp
  have m: "regexMatch floorUnits (toLowerCase ''Buildings with many floors'') = None" by code_simp
  have m2: "regexMatch floorUnits (toLowerCase (queryText ?st2)) = None" by code_simp
  from C6_floors [OF q fi] e m m2 show ?thesis by simp
qed

section \<open>Zero values\<close>

lemma floorFilterFn_zero: "getProp floors b = Some 0 \<Longrightarrow> \<not> floorFilterFn op v b"
  by (simp add: floorFilterFn_def truthyNum_def)

lemma restoreNumeric_zero:
  "getProp field b = Some 0 \<Longrightarrow> b \<notin> set (restoreNumeric toNumber field f bs)"
  by (simp add: restoreNumeric_def truthyNum_def)

text \<open>
  C9.  A record whose floors property is 0 is never highlighted by a floors query nor by
  the restore of a floors filter, whatever the operator and the threshold (also for
  floors < v with v > 0); and a height_m property equal to 0 is skipped by the height
  chain, which then reads height_ft or the height string as if height_m were absent.
\<close>

theorem C9_zero_unresolved:
  assumes z: "getProp floors b = Some 0"
    and fi: "floorsIntent (toLowerCase (queryText st))"
    and pf: "filters proj = f # rest" "attribute f = ''floors''"
    and hz: "properties b2 = Some p" "height_m p = Some 0"
  shows "b \<notin> set (highlightedBuildings (handleQuerySubmit st))
    \<and> b \<notin> set (highlightedBuildings (handleLoadProject toNumber (Some proj) st2))
    \<and> \<not> floorFilterFn op v b
    \<and> heightInMeters b2 = heightInMeters (b2\<lparr>properties := Some (p\<lparr>height_m := None\<rparr>)\<rparr>)"
proof -
  have A: "b \<notin> set (highlightedBuildings (handleQuerySubmit st))"
    using floorFilterFn_zero [OF z]
    by (simp add: handleQuerySubmit_floors [OF fi] floorQuery_def Let_def)
  have B: "b \<notin> set (highlightedBuildings (handleLoadProject toNumber (Some proj) st2))"
    using pf restoreNumeric_zero [OF z]
    by (simp add: handleLoadProject_def applySavedFilter_def)
  have C: "heightInMeters b2 = heightInMeters (b2\<lparr>properties := Some (p\<lparr>height_m := None\<rparr>)\<rparr>)"
    using hz by (simp add: heightInMeters_def getProp_def truthyNum_def)
  from A B C floorFilterFn_zero [OF z] show ?thesis by simp
qed

theorem C9_zero_unresolved_witness:
  "interpretedFilter (handleQuerySubmit fewFloorsState)
     = Some \<lparr>attribute = ''floors'', operator = ''<'', filter_value = Num 5,
             description = ''Buildings with fewer than 5 floors''\<rparr>
   \<and> getProp floors zeroFloors = Some 0
   \<and> zeroFloors \<in> set (buildings fewFloorsState)
   \<and> zeroFloors \<notin> set (highlightedBuildings (handleQuerySubmit fewFloorsState))
   \<and> zeroFloors \<notin> set (highlightedBuildings
         (handleLoadProject noCoercion (Some fewFloorsProject) fewFloorsState))
   \<and> \<not> floorFilterFn ''<'' 5 zeroFloors
   \<and> heightInMeters zeroHeight = Some (80 * (3048 / 10000))"
proof -
  have z: "getProp floors zeroFloors = Some 0" by code_simp
  have fi: "floorsIntent (toLowerCase (queryText fewFloorsState))" by code_simp
  have pf: "filters fewFloorsProject = hd (filters fewFloorsProject) # []"
    "attribute (hd (filters fewFloorsProject)) = ''floors''" by code_simp+
  have hz: "properties zeroHeight = Some (noProps\<lparr>height_m := Some 0, height_ft := Some 80\<rparr>)"
    "height_m (noProps\<lparr>height_m := Some 0, height_ft := Some 80\<rparr>) = Some 0" by code_simp+
  have e1: "interpretedFilter (handleQuerySubmit fewFloorsState)
     = Some \<lparr>attribute = ''floors'', operator = ''<'', filter_value = Num 5,
             description = ''Buildings with fewer than 5 floors''\<rparr>" by code_simp
  have e2: "zeroFloors \<in> set (buildings fewFloorsState)" by code_simp
  have e3: "heightInMeters (zeroHeight\<lparr>properties :=
       Some (noProps\<lparr>height_m := Some 0, height_ft := Some 80, height_m := None\<rparr>)\<rparr>)
     = Some (80 * (3048 / 10000))" by code_simp
  from C9_zero_unresolved [OF z fi pf hz, of noCoercion fewFloorsState "''<''" 5] e1 e2 e3 z
  show ?thesis by simp
qed

section \<open>Round trip of a saved filter\<close>

text \<open>
  The restore path re-implements the evaluation.  For a filter on floors or on
  building_type the two implementations agree, so a project saved after such a query
  restores the subset the query highlighted.
\<close>

lemma restore_typeQuery:
  "applySavedFilter toNumber \<lparr>attribute = ''building_type'', operator = ''='',
       filter_value = Str ty, description = d\<rparr> bs
   = Inr (filter (\<lambda>b. getProp building_type b = Some ty) bs)"
  apply (simp add: applySavedFilter_def)
  apply (rule filter_cong [OF refl])
  apply (simp split: option.splits)
  done

lemma restore_floors_gt:
  "applySavedFilter toNumber \<lparr>attribute = ''floors'', operator = ''>'',
       filter_value = Num v, description = d\<rparr> bs
   = Inr (filter (floorFilterFn ''>'' v) bs)"
  apply (simp add: applySavedFilter_def restoreNumeric_def)
  apply (rule filter_cong [OF refl])
  apply (simp add: floorFilterFn_def gtValue_def truthyNum_def split: option.splits)
  done

lemma restore_floors_lt:
  "applySavedFilter toNumber \<lparr>attribute = ''floors'', operator = ''<'',
       filter_value = Num v, description = d\<rparr> bs
   = Inr (filter (floorFilterFn ''<'' v) bs)"
  apply (simp add: applySavedFilter_def restoreNumeric_def)
  apply (rule filter_cong [OF refl])
  apply (simp add: floorFilterFn_def ltValue_def truthyNum_def split: option.splits)
  done

lemma restore_floorQuery:
  "applySavedFilter toNumber f bs = Inr hs" if "floorQuery q bs = (hs, Some f)"
proof (cases "directionOf q = ''<''")
  case True
  with that show ?thesis
    by (auto simp: floorQuery_def Let_def restore_floors_lt)
next
  case False
  then have "directionOf q = ''>''" by (simp add: directionOf_def split: if_splits)
  with that show ?thesis
    by (auto simp: floorQuery_def Let_def restore_floors_gt)
qed

lemma typeRule_nonblank:
  assumes "\<not> noTypeRule (toLowerCase q)"
  shows "trim q \<noteq> []"
proof -
  from assms have "list_ex (str_includes (toLowerCase q))
          [''low rise'', ''low-rise'', ''mid rise'', ''mid-rise'', ''medium rise'',
           ''high rise'', ''high-rise'', ''tall'',
           ''single story'', ''single-story'', ''one story'']"
    unfolding noTypeRule_def by (rule notnotD)
  then show ?thesis
    by (rule keyword_nonblank) (simp add: isSpace_def)
qed


lemma typeRule_query:
  assumes "\<not> noTypeRule query"
  shows "\<exists>ty d. interpretQuery query bs = typeQuery ty d bs"
proof -
  let ?c1 = "str_includes query ''low rise'' \<or> str_includes query ''low-rise''"
  let ?c2 = "str_includes query ''mid rise'' \<or> str_includes query ''mid-rise''
              \<or> str_includes query ''medium rise''"
  let ?c3 = "str_includes query ''high rise'' \<or> str_includes query ''high-rise''
              \<or> str_includes query ''tall''"
  let ?c4 = "str_includes query ''single story'' \<or> str_includes query ''single-story''
              \<or> str_includes query ''one story''"
  from assms have any: "?c1 \<or> ?c2 \<or> ?c3 \<or> ?c4"
    unfolding noTypeRule_def by simp
  show ?thesis
  proof (cases ?c1)
    case True
    then show ?thesis unfolding interpretQuery_def by (simp only: if_True, blast?)
  next
    case n1: False
    show ?thesis
    proof (cases ?c2)
      case True
      with n1 show ?thesis unfolding interpretQuery_def by (simp only: if_True if_False, blast?)
    next
      case n2: False
      show ?thesis
      proof (cases ?c3)
        case True
        with n1 n2 show ?thesis unfolding interpretQuery_def
          by (simp only: if_True if_False, blast?)
      next
        case n3: False
        with n1 n2 any have ?c4 by blast
        with n1 n2 n3 show ?thesis unfolding interpretQuery_def
          by (simp only: if_True if_False, blast?)
      qed
    qed
  qed
qed

lemma restore_typeQuery_result:
  "applySavedFilter toNumber f bs = Inr hs" if "typeQuery ty d bs = (hs, Some f)"
  using that by (auto simp: typeQuery_def restore_typeQuery)

lemma load_saved:
  assumes "username st \<noteq> []" and "truthyStr (selectedZone st)"
    and "interpretedFilter st = Some f"
    and "applySavedFilter toNumber f (buildings st) = Inr hs"
  shows "highlightedBuildings
           (handleLoadProject toNumber (fst (handleSaveProject SaveResolved n st))
              (snd (handleSaveProject SaveResolved n st))) = hs"
  using assms by (simp add: handleSaveProject_def handleLoadProject_def projectData_def)

lemma roundtrip_floors:
  assumes fi: "floorsIntent (toLowerCase (queryText st))"
    and u: "username st \<noteq> []" "truthyStr (selectedZone st)"
  shows "highlightedBuildings
           (handleLoadProject toNumber
              (fst (handleSaveProject SaveResolved n (handleQuerySubmit st)))
              (snd (handleSaveProject SaveResolved n (handleQuerySubmit st))))
         = highlightedBuildings (handleQuerySubmit st)"
proof -
  let ?q = "toLowerCase (queryText st)"
  obtain hs f where r: "floorQuery ?q (buildings st) = (hs, Some f)"
    by (simp add: floorQuery_def Let_def)
  have sub: "handleQuerySubmit st =
      st\<lparr>highlightedBuildings := hs, interpretedFilter := Some f, loading := False\<rparr>"
    by (simp add: handleQuerySubmit_floors [OF fi] r)
  have "applySavedFilter toNumber f (buildings (handleQuerySubmit st)) = Inr hs"
    using restore_floorQuery [OF r] by (simp add: sub)
  with u have "highlightedBuildings
           (handleLoadProject toNumber
              (fst (handleSaveProject SaveResolved n (handleQuerySubmit st)))
              (snd (handleSaveProject SaveResolved n (handleQuerySubmit st)))) = hs"
    by (intro load_saved) (simp_all add: sub)
  then show ?thesis by (simp add: sub)
qed

lemma roundtrip_building_type:
  assumes ty: "\<not> noTypeRule (toLowerCase (queryText st))"
    and u: "username st \<noteq> []" "truthyStr (selectedZone st)"
  shows "highlightedBuildings
           (handleLoadProject toNumber
              (fst (handleSaveProject SaveResolved n (handleQuerySubmit st)))
              (snd (handleSaveProject SaveResolved n (handleQuerySubmit st))))
         = highlightedBuildings (handleQuerySubmit st)"
proof -
  let ?q = "toLowerCase (queryText st)"
  from typeRule_query [OF ty] obtain t d where
    i: "interpretQuery ?q (buildings st) = typeQuery t d (buildings st)" by blast
  obtain hs f where r: "typeQuery t d (buildings st) = (hs, Some f)"
    by (simp add: typeQuery_def)
  have sub: "handleQuerySubmit st =
      st\<lparr>highlightedBuildings := hs, interpretedFilter := Some f, loading := False\<rparr>"
    by (simp add: handleQuerySubmit_nonblank [OF typeRule_nonblank [OF ty]] i r)
  have "applySavedFilter toNumber f (buildings (handleQuerySubmit st)) = Inr hs"
    using restore_typeQuery_result [OF r] by (simp add: sub)
  with u have "highlightedBuildings
           (handleLoadProject toNumber
              (fst (handleSaveProject SaveResolved n (handleQuerySubmit st)))
              (snd (handleSaveProject SaveResolved n (handleQuerySubmit st)))) = hs"
    by (intro load_saved) (simp_all add: sub)
  then show ?thesis by (simp add: sub)
qed

text \<open>
  C1.  The round trip fails for a height_m filter: over a collection holding one record
  whose height is given as height_ft = 80, the query \<open>buildings over 10 meters\<close>
  highlights that record (24.384 m), the saved project carries the filter
  height_m > 10, and restoring it against the same collection highlights nothing,
  because the restore path reads the height_m property only.
\<close>

theorem C1_height_roundtrip_diverges:
  "interpretedFilter (handleQuerySubmit over10mState) = Some over10mFilter
   \<and> highlightedBuildings (handleQuerySubmit over10mState) = [feet80]
   \<and> map_option filters (fst (handleSaveProject SaveResolved ''tall ones'' (handleQuerySubmit over10mState)))
       = Some [over10mFilter]
   \<and> buildings (snd (handleSaveProject SaveResolved ''tall ones'' (handleQuerySubmit over10mState)))
       = buildings over10mState
   \<and> highlightedBuildings
        (handleLoadProject noCoercion
           (fst (handleSaveProject SaveResolved ''tall ones'' (handleQuerySubmit over10mState)))
           (snd (handleSaveProject SaveResolved ''tall ones'' (handleQuerySubmit over10mState))))
       = []"
  by code_simp

end
